theory Spec2Isabelle
  imports Complex_Main "HOL-Library.Multiset" "HOL-Library.Word"
begin

section \<open>Data model (\<open>types.ts\<close>, src/unnamed/part_001)\<close>

text \<open>
  The three interfaces of the repository. A JavaScript string that the code only stores,
  copies or compares is a \<^typ>\<open>string\<close>; the task text, which the code splits and trims by
  character class, is a list of UTF-16 code units (below). A JavaScript \<open>number\<close> that the
  code only passes along is a \<^typ>\<open>real\<close>; \<open>rank\<close>, which the response schema declares
  \<open>Type.INTEGER\<close> and the sort comparator subtracts, is an \<^typ>\<open>int\<close>.

  The field \<open>id\<close> is written \<open>id_emp\<close> (the name \<open>id\<close> is the identity function of HOL).
  \<open>RankedEmployee extends AnalyzedEmployee\<close> is a record extension.
\<close>

type_synonym utf16 = "16 word list"

record AnalyzedEmployee =
  id_emp :: string
  name :: string
  summary :: string
  skills :: "string list"
  experienceYears :: real

record RankedEmployee = AnalyzedEmployee +
  rank :: int
  justification :: string

record TaskAssignment =
  employeeId :: string
  tasks :: "utf16 list"

text \<open>
  An element of \<open>rankedData\<close> in \<open>rankEmployees\<close>. Its declared type,
  \<open>{ id: string; rank: number; justification: string; }\<close>, names three properties, and
  an object with further keys is a value of that type too: \<open>JSON.parse\<close> returns an object
  with whatever keys the text has. The keys that are also properties of
  \<open>AnalyzedEmployee\<close> are the four optional fields, \<open>None\<close> when the entry does not carry
  the key. (A key of any other name would become one more property of the merged object,
  outside the interface \<open>RankedEmployee\<close>; the record does not show it.) The fields carry
  the suffix \<open>_rk\<close> to keep them apart from those of \<open>RankedEmployee\<close>.
\<close>

record Ranking =
  id_rk :: string
  rank_rk :: int
  justification_rk :: string
  name_rk :: "string option"
  summary_rk :: "string option"
  skills_rk :: "string list option"
  experienceYears_rk :: "real option"

section \<open>The remote model (\<open>services/geminiService.ts\<close>, src/unnamed/part_000)\<close>

text \<open>
  What \<open>await ai.models.generateContent(...)\<close> followed by \<open>JSON.parse(response.text)\<close>
  can do inside the \<open>try\<close> block of a service function: the request is rejected, the text
  is not JSON, or the text parses to a value of the declared type.
\<close>

datatype 'a Reply = Rejected | Unparsable | Parsed 'a

text \<open>
  \<open>Array.prototype.sort(cmp)\<close>. The sort of ECMAScript is stable, and with a consistent
  comparator its result is determined: the elements in an order where \<open>cmp a b \<le> 0\<close>
  for \<open>a\<close> before \<open>b\<close>, equal elements in their original order. Insertion from the
  right, in front of the first element that does not have to precede, computes it.
\<close>

fun sort_insert :: "('a \<Rightarrow> 'a \<Rightarrow> int) \<Rightarrow> 'a \<Rightarrow> 'a list \<Rightarrow> 'a list" where
  "sort_insert cmp a [] = [a]"
| "sort_insert cmp a (b # bs) =
     (if cmp a b \<le> 0 then a # b # bs else b # sort_insert cmp a bs)"

definition sort_cmp :: "('a \<Rightarrow> 'a \<Rightarrow> int) \<Rightarrow> 'a list \<Rightarrow> 'a list" where
  "sort_cmp cmp xs = foldr (sort_insert cmp) xs []"

text \<open>
  The callback of \<open>employees.map\<close> in \<open>rankEmployees\<close> (lines 82 to 88):
  \<open>rankedData.find(r => r.id === emp.id)\<close> is \<^const>\<open>find\<close>; a found object is truthy.
  \<open>{ ...emp, ...ranking }\<close> copies the fields of \<open>emp\<close> and then writes every key that
  \<open>ranking\<close> carries over them: \<open>id\<close>, \<open>rank\<close> and \<open>justification\<close> always, and \<open>name\<close>,
  \<open>summary\<close>, \<open>skills\<close> and \<open>experienceYears\<close> when the entry has them.
  \<open>{ ...emp, rank: 0, justification: 'Not ranked' }\<close> copies the fields of \<open>emp\<close> and adds
  the two.
\<close>

definition mergeRanking :: "Ranking list \<Rightarrow> AnalyzedEmployee \<Rightarrow> RankedEmployee" where
  "mergeRanking rankedData emp =
     (case find (\<lambda>r. id_rk r = id_emp emp) rankedData of
        Some ranking \<Rightarrow>
          \<lparr>id_emp = id_rk ranking,
           name = (case name_rk ranking of None \<Rightarrow> name emp | Some v \<Rightarrow> v),
           summary = (case summary_rk ranking of None \<Rightarrow> summary emp | Some v \<Rightarrow> v),
           skills = (case skills_rk ranking of None \<Rightarrow> skills emp | Some v \<Rightarrow> v),
           experienceYears =
             (case experienceYears_rk ranking of None \<Rightarrow> experienceYears emp | Some v \<Rightarrow> v),
           rank = rank_rk ranking,
           justification = justification_rk ranking\<rparr>
      | None \<Rightarrow>
          \<lparr>id_emp = id_emp emp, name = name emp, summary = summary emp, skills = skills emp,
           experienceYears = experienceYears emp, rank = 0, justification = ''Not ranked''\<rparr>)"

text \<open>
  \<open>rankEmployees\<close>: \<open>Inl\<close> is the message of the \<open>Error\<close> thrown by the \<open>catch\<close> block.
\<close>

definition rankEmployees ::
  "AnalyzedEmployee list \<Rightarrow> Ranking list Reply \<Rightarrow> string + RankedEmployee list" where
  "rankEmployees employees reply =
     (case reply of
        Parsed rankedData \<Rightarrow>
          Inr (sort_cmp (\<lambda>a b. rank b - rank a) (map (mergeRanking rankedData) employees))
      | _ \<Rightarrow> Inl ''Failed to rank employees with Gemini API.'')"

definition distributeTasks ::
  "RankedEmployee list \<Rightarrow> utf16 list \<Rightarrow> TaskAssignment list Reply \<Rightarrow> string + TaskAssignment list" where
  "distributeTasks employees task_list reply =
     (case reply of
        Parsed assignments \<Rightarrow> Inr assignments
      | _ \<Rightarrow> Inl ''Failed to distribute tasks with Gemini API.'')"

section \<open>Strings: \<open>split\<close>, \<open>trim\<close>, indexing\<close>

text \<open>
  \<open>s.split(sep)\<close> for a separator of one code unit: the pieces between the separators,
  so that the empty string gives one empty piece.
\<close>

fun split :: "'a list \<Rightarrow> 'a \<Rightarrow> 'a list list" where
  "split [] sep = [[]]"
| "split (c # cs) sep =
     (if c = sep then [] # split cs sep
      else (case split cs sep of p # ps \<Rightarrow> (c # p) # ps | [] \<Rightarrow> [[c]]))"

text \<open>\<open>xs[i]\<close>: \<open>undefined\<close> (here \<open>None\<close>) out of range.\<close>

definition index :: "'a list \<Rightarrow> nat \<Rightarrow> 'a option" where
  "index xs i = (if i < length xs then Some (xs ! i) else None)"

text \<open>
  The code units that \<open>String.prototype.trim\<close> strips: WhiteSpace (TAB, VT, FF, SP, NBSP,
  ZWNBSP and the category Zs) and LineTerminator (LF, CR, LS, PS) of ECMAScript.
\<close>

definition isWhiteSpace :: "16 word \<Rightarrow> bool" where
  "isWhiteSpace c \<longleftrightarrow>
     c = 0x0009 \<or> c = 0x000A \<or> c = 0x000B \<or> c = 0x000C \<or> c = 0x000D \<or> c = 0x0020 \<or>
     c = 0x00A0 \<or> c = 0x1680 \<or> (0x2000 \<le> c \<and> c \<le> 0x200A) \<or> c = 0x2028 \<or> c = 0x2029 \<or>
     c = 0x202F \<or> c = 0x205F \<or> c = 0x3000 \<or> c = 0xFEFF"

definition trim :: "utf16 \<Rightarrow> utf16" where
  "trim s = rev (dropWhile isWhiteSpace (rev (dropWhile isWhiteSpace s)))"

section \<open>The PDF renderer (\<open>processPdfToImages\<close>, src/index.tsx)\<close>

text \<open>
  A value thrown inside the \<open>try\<close> block, as far as the \<open>catch\<close> block looks at it: an
  object with its \<open>name\<close> property when that is a string, or anything else.
\<close>

datatype Thrown = ErrorObject "string option" | NonObject

text \<open>
  The rendering capability, a collaborator: pdf.js (\<open>window.pdfjsLib\<close>) and the canvas
  of the browser. A \<open>Raster\<close> is what a painted canvas holds.
\<close>

type_synonym Raster = "nat list"

record Viewport =
  width :: real
  height :: real

record PdfPage =
  getViewport :: "real \<Rightarrow> Viewport"
  render :: "Viewport \<Rightarrow> Thrown + Raster"

record PdfDocument =
  numPages :: nat
  getPage :: "nat \<Rightarrow> Thrown + PdfPage"

record PdfJsLib =
  getDocument :: "8 word list \<Rightarrow> Thrown + PdfDocument"

record Browser =
  pdfjsLib :: "PdfJsLib option"
  getContext :: "string \<Rightarrow> bool"
  toDataURL :: "Raster \<Rightarrow> string \<Rightarrow> string"

text \<open>
  A \<open>File\<close>: its \<open>name\<close> and \<open>type\<close>, and what \<open>FileReader.readAsArrayBuffer\<close> does with
  it: \<open>onerror\<close>, or \<open>onload\<close> with \<open>event.target.result\<close> (which may be null).
\<close>

datatype FileRead = OnError | OnLoad "8 word list option"

record File =
  name_file :: string
  type_file :: string
  readAsArrayBuffer :: FileRead

record PdfImage =
  mimeType :: string
  data :: "string option"

text \<open>The body of the page loop (lines 57 to 71) for one page.\<close>

definition renderPageToImage :: "Browser \<Rightarrow> PdfPage \<Rightarrow> Thrown + PdfImage" where
  "renderPageToImage env page =
     (let viewport = getViewport page (3 / 2) in
      if \<not> getContext env ''2d'' then Inl (ErrorObject (Some ''Error''))
      else (case render page viewport of
              Inl e \<Rightarrow> Inl e
            | Inr canvas \<Rightarrow>
                Inr \<lparr>mimeType = ''image/jpeg'',
                     data = index (split (toDataURL env canvas ''image/jpeg'') CHR '','') 1\<rparr>))"

text \<open>\<open>for (let i = 1; i <= pdf.numPages; i++)\<close>, leaving at the first exception.\<close>

function pageLoop :: "Browser \<Rightarrow> PdfDocument \<Rightarrow> nat \<Rightarrow> PdfImage list \<Rightarrow> Thrown + PdfImage list" where
  "pageLoop env pdf i images =
     (if i \<le> numPages pdf then
        (case getPage pdf i of
           Inl e \<Rightarrow> Inl e
         | Inr page \<Rightarrow>
             (case renderPageToImage env page of
                Inl e \<Rightarrow> Inl e
              | Inr img \<Rightarrow> pageLoop env pdf (Suc i) (images @ [img])))
      else Inr images)"
  by pat_completeness auto
termination
  by (relation "measure (\<lambda>(env, pdf, i, images). Suc (numPages pdf) - i)") auto

declare pageLoop.simps [simp del]

text \<open>The \<open>try\<close> block of the \<open>onload\<close> handler once the bytes are there (lines 52 to 73).\<close>

definition renderDocument :: "Browser \<Rightarrow> PdfJsLib \<Rightarrow> 8 word list \<Rightarrow> Thrown + PdfImage list" where
  "renderDocument env lib typedarray =
     (case getDocument lib typedarray of
        Inl e \<Rightarrow> Inl e
      | Inr pdf \<Rightarrow> pageLoop env pdf 1 [])"

text \<open>
  The test of the \<open>catch\<close> block:
  \<open>error && typeof error === 'object' && 'name' in error && error.name === 'PasswordException'\<close>.
\<close>

definition isPasswordException :: "Thrown \<Rightarrow> bool" where
  "isPasswordException error =
     (case error of
        ErrorObject (Some n) \<Rightarrow> n = ''PasswordException''
      | _ \<Rightarrow> False)"

text \<open>
  The messages of the errors, under the names the specification gives the error kinds.
\<close>

definition EnvironmentUnavailable :: string where
  "EnvironmentUnavailable =
     ''PDF processing library is not loaded. Please wait a moment and try again.''"

definition UnsupportedDocument :: string where
  "UnsupportedDocument =
     ''The PDF file is password-protected. Please provide a decrypted file.''"

definition CorruptDocument :: string where
  "CorruptDocument =
     ''Failed to process the PDF file. It might be corrupted or in an unsupported format.''"

definition InvalidUpload :: string where
  "InvalidUpload = ''Please upload a valid PDF file.''"

definition RankingFailed :: string where
  "RankingFailed = ''Failed to rank employees with Gemini API.''"

text \<open>
  \<open>processPdfToImages\<close>: \<open>Inl\<close> is the message of the \<open>Error\<close> the promise is rejected with.
  The guard on \<open>window.pdfjsLib\<close> comes first, then the outcome of the \<open>FileReader\<close>, then
  the \<open>try\<close> block with its \<open>catch\<close>. (The assignment to \<open>GlobalWorkerOptions.workerSrc\<close>
  configures the library and returns nothing; it is left out.)
\<close>

definition processPdfToImages :: "Browser \<Rightarrow> File \<Rightarrow> string + PdfImage list" where
  "processPdfToImages env file =
     (case pdfjsLib env of
        None \<Rightarrow> Inl ''PDF processing library is not loaded. Please wait a moment and try again.''
      | Some lib \<Rightarrow>
          (case readAsArrayBuffer file of
             OnError \<Rightarrow> Inl ''An error occurred while reading the file.''
           | OnLoad None \<Rightarrow> Inl ''Failed to read file''
           | OnLoad (Some typedarray) \<Rightarrow>
               (case renderDocument env lib typedarray of
                  Inr images \<Rightarrow> Inr images
                | Inl error \<Rightarrow>
                    if isPasswordException error
                    then Inl ''The PDF file is password-protected. Please provide a decrypted file.''
                    else Inl ''Failed to process the PDF file. It might be corrupted or in an unsupported format.'')))"

section \<open>The form and the application state (\<open>EmployeeForm\<close> and \<open>App\<close>, src/index.tsx)\<close>

text \<open>
  The state of \<open>EmployeeForm\<close>: its three \<open>useState\<close> cells and the \<open>value\<close> of the file
  input, which \<open>handleFileChange\<close> writes through \<open>e.target\<close>.
\<close>

record EmployeeForm =
  name_form :: string
  resumeFile :: "File option"
  isAnalyzing :: bool
  value_input :: string

text \<open>
  \<open>handleFileChange\<close>, given \<open>e.target.files\<close> (null is \<open>None\<close>): the new state of the form
  and the messages it passes to \<open>onError\<close>, in order.
\<close>

definition handleFileChange :: "File list option \<Rightarrow> EmployeeForm \<Rightarrow> EmployeeForm \<times> string list" where
  "handleFileChange files form =
     (case files of
        Some (file # _) \<Rightarrow>
          if type_file file = ''application/pdf''
          then (form\<lparr>resumeFile := Some file\<rparr>, [''''])
          else (form\<lparr>resumeFile := None, value_input := ''''\<rparr>,
                [''Please upload a valid PDF file.''])
      | _ \<Rightarrow> (form, []))"

text \<open>The six \<open>useState\<close> cells of \<open>App\<close>.\<close>

record App =
  employees :: "AnalyzedEmployee list"
  rankedEmployees :: "RankedEmployee list"
  assignments :: "TaskAssignment list"
  isRanking :: bool
  isDistributing :: bool
  error :: "string option"

text \<open>
  \<open>handleSetError\<close>: the new state and the delay of the timer it starts, whose callback
  is \<open>setError(null)\<close>.
\<close>

definition handleSetError :: "string \<Rightarrow> App \<Rightarrow> App \<times> nat" where
  "handleSetError message s = (s\<lparr>error := Some message\<rparr>, 7000)"

text \<open>
  \<open><EmployeeForm onError={handleSetError} />\<close>: a change of the file input runs
  \<open>handleFileChange\<close>, and each message it passes to \<open>onError\<close> goes through
  \<open>handleSetError\<close>. The result is the application state, the form and the timers started.
\<close>

definition onChange_resume_upload ::
  "File list option \<Rightarrow> App \<times> EmployeeForm \<Rightarrow> App \<times> EmployeeForm \<times> nat list" where
  "onChange_resume_upload files st =
     (case handleFileChange files (snd st) of
        (form', messages) \<Rightarrow>
          (foldl (\<lambda>s message. fst (handleSetError message s)) (fst st) messages,
           form',
           map (\<lambda>message. snd (handleSetError message (fst st))) messages))"

definition handleAddEmployee :: "AnalyzedEmployee \<Rightarrow> App \<Rightarrow> App" where
  "handleAddEmployee employee s =
     s\<lparr>employees := employees s @ [employee], rankedEmployees := [], assignments := []\<rparr>"

text \<open>
  \<open>handleRankEmployees\<close>, given what the remote model does when asked: the state once the
  handler has finished, and the roster sent (\<open>None\<close> when no request is made).
  \<open>rankEmployees\<close> only throws \<open>Error\<close> objects, so \<open>err.message\<close> is what is stored.
\<close>

definition handleRankEmployees ::
  "Ranking list Reply \<Rightarrow> App \<Rightarrow> App \<times> AnalyzedEmployee list option" where
  "handleRankEmployees reply s =
     (if employees s = [] then (s, None)
      else
        let s1 = s\<lparr>isRanking := True, error := None\<rparr>;
            s2 = (case rankEmployees (employees s) reply of
                    Inr result \<Rightarrow> s1\<lparr>rankedEmployees := result\<rparr>
                  | Inl message \<Rightarrow> s1\<lparr>error := Some message\<rparr>)
        in (s2\<lparr>isRanking := False\<rparr>, Some (employees s)))"

text \<open>
  \<open>handleDistributeTasks\<close>, in the same way: the final state and the arguments of the
  call of \<open>distributeTasks\<close> (\<open>None\<close> when no request is made). \<open>'\n'\<close> is the code unit 10.
\<close>

definition handleDistributeTasks ::
  "utf16 \<Rightarrow> TaskAssignment list Reply \<Rightarrow> App \<Rightarrow> App \<times> (RankedEmployee list \<times> utf16 list) option" where
  "handleDistributeTasks tasksText reply s =
     (if rankedEmployees s = [] then (s, None)
      else
        let tasks = filter (\<lambda>t. trim t \<noteq> []) (split tasksText 0x000A) in
        if tasks = [] then (s, None)
        else
          let s1 = s\<lparr>isDistributing := True, error := None\<rparr>;
              s2 = (case distributeTasks (rankedEmployees s) tasks reply of
                      Inr result \<Rightarrow> s1\<lparr>assignments := result\<rparr>
                    | Inl message \<Rightarrow> s1\<lparr>error := Some message\<rparr>)
          in (s2\<lparr>isDistributing := False\<rparr>, Some (rankedEmployees s, tasks)))"

section \<open>The words of the specification\<close>

text \<open>
  \<open>Array.prototype.join\<close> with a separator of one code unit, to say what the pieces of
  \<^const>\<open>split\<close> are; and a line that holds nothing but white space.
\<close>

fun join :: "'a \<Rightarrow> 'a list list \<Rightarrow> 'a list" where
  "join sep [] = []"
| "join sep [p] = p"
| "join sep (p # q # ps) = p @ sep # join sep (q # ps)"

definition whitespace_only :: "utf16 \<Rightarrow> bool" where
  "whitespace_only t = list_all isWhiteSpace t"

text \<open>
  A response entry as the response schema asks for it: \<open>id\<close>, \<open>rank\<close> and \<open>justification\<close>
  and no key of the roster entry besides.
\<close>

definition schema_keys_only :: "Ranking \<Rightarrow> bool" where
  "schema_keys_only r \<longleftrightarrow>
     name_rk r = None \<and> summary_rk r = None \<and> skills_rk r = None \<and>
     experienceYears_rk r = None"

section \<open>Example inputs\<close>

text \<open>
  The roster and the ranking response of the example scenario of the specification, and
  a second employee that the response leaves out; a second response entry for the
  same id.
\<close>

definition al :: AnalyzedEmployee where
  "al = \<lparr>id_emp = ''a'', name = ''Al'', summary = ''Backend engineer'', skills = [''Go''],
          experienceYears = 5\<rparr>"

definition bo :: AnalyzedEmployee where
  "bo = \<lparr>id_emp = ''b'', name = ''Bo'', summary = ''Designer'', skills = [''Figma''],
          experienceYears = 2\<rparr>"

definition strong :: Ranking where
  "strong = \<lparr>id_rk = ''a'', rank_rk = 80, justification_rk = ''Strong'',
              name_rk = None, summary_rk = None, skills_rk = None, experienceYears_rk = None\<rparr>"

definition weak :: Ranking where
  "weak = \<lparr>id_rk = ''a'', rank_rk = 10, justification_rk = ''Weak'',
            name_rk = None, summary_rk = None, skills_rk = None, experienceYears_rk = None\<rparr>"

text \<open>
  The response entry \<open>{"id":"a","rank":80,"justification":"Strong","name":"Alan"}\<close>.
\<close>

definition renamed :: Ranking where
  "renamed = \<lparr>id_rk = ''a'', rank_rk = 80, justification_rk = ''Strong'',
               name_rk = Some ''Alan'', summary_rk = None, skills_rk = None,
               experienceYears_rk = None\<rparr>"

text \<open>A state with a ranking and task assignments; a text file and a PDF; a filled form.\<close>

definition ranked_al :: RankedEmployee where
  "ranked_al = \<lparr>id_emp = ''a'', name = ''Al'', summary = ''Backend engineer'',
                skills = [''Go''], experienceYears = 5, rank = 80, justification = ''Strong''\<rparr>"

definition ranked_assigned :: App where
  "ranked_assigned =
     \<lparr>employees = [al], rankedEmployees = [ranked_al],
      assignments = [\<lparr>employeeId = ''a'', tasks = [[0x0041]]\<rparr>],
      isRanking = False, isDistributing = False, error = None\<rparr>"

definition notes_txt :: File where
  "notes_txt = \<lparr>name_file = ''notes.txt'', type_file = ''text/plain'',
                 readAsArrayBuffer = OnLoad (Some [0x68, 0x69])\<rparr>"

definition cv_pdf :: File where
  "cv_pdf = \<lparr>name_file = ''cv.pdf'', type_file = ''application/pdf'',
              readAsArrayBuffer = OnLoad (Some [0x25, 0x50, 0x44, 0x46])\<rparr>"

definition filled_form :: EmployeeForm where
  "filled_form = \<lparr>name_form = ''Bo'', resumeFile = Some cv_pdf, isAnalyzing = False,
                   value_input = ''C:/fakepath/cv.pdf''\<rparr>"

text \<open>
  A rendering capability: a library that opens the bytes of \<open>cv.pdf\<close> as a document of two
  pages, reports a password for those of \<open>locked.pdf\<close> and fails on anything else, and a
  browser whose canvas has a 2D context; two files that the \<open>FileReader\<close> does not
  deliver, one with \<open>onerror\<close> and one with a null result.
\<close>

definition sample_page :: "nat \<Rightarrow> PdfPage" where
  "sample_page i =
     \<lparr>getViewport = (\<lambda>scale. \<lparr>width = 612 * scale, height = 792 * scale\<rparr>),
      render = (\<lambda>viewport. Inr [i, nat \<lfloor>width viewport\<rfloor>, nat \<lfloor>height viewport\<rfloor>])\<rparr>"

definition two_pages :: PdfDocument where
  "two_pages = \<lparr>numPages = 2, getPage = (\<lambda>i. Inr (sample_page i))\<rparr>"

definition unreadable_pdf :: File where
  "unreadable_pdf = \<lparr>name_file = ''gone.pdf'', type_file = ''application/pdf'',
                      readAsArrayBuffer = OnError\<rparr>"

definition resultless_pdf :: File where
  "resultless_pdf = \<lparr>name_file = ''none.pdf'', type_file = ''application/pdf'',
                      readAsArrayBuffer = OnLoad None\<rparr>"



definition sample_lib :: PdfJsLib where
  "sample_lib =
     \<lparr>getDocument = (\<lambda>bytes.
        if bytes = [0x25, 0x50, 0x44, 0x46] then Inr two_pages
        else if bytes = [0x25, 0x50, 0x44, 0x46, 0x45]
        then Inl (ErrorObject (Some ''PasswordException''))
        else Inl (ErrorObject (Some ''InvalidPDFException'')))\<rparr>"

definition sample_browser :: Browser where
  "sample_browser =
     \<lparr>pdfjsLib = Some sample_lib,
      getContext = (\<lambda>kind. kind = ''2d''),
      toDataURL = (\<lambda>canvas mime.
        ''data:'' @ mime @ '';base64,'' @ map (\<lambda>n. if even n then CHR ''A'' else CHR ''B'') canvas)\<rparr>"

section \<open>Sorting with a comparator\<close>

lemma mset_sort_insert: "mset (sort_insert cmp a xs) = add_mset a (mset xs)"
  by (induction xs) simp_all

lemma mset_sort_cmp: "mset (sort_cmp cmp xs) = mset xs"
  unfolding sort_cmp_def by (induction xs) (simp_all add: mset_sort_insert)

lemma set_sort_cmp: "set (sort_cmp cmp xs) = set xs"
  using mset_sort_cmp [of cmp xs] by (metis set_mset_mset)

lemma length_sort_cmp: "length (sort_cmp cmp xs) = length xs"
  using mset_sort_cmp [of cmp xs] by (metis size_mset)

lemma set_sort_insert: "set (sort_insert cmp a xs) = insert a (set xs)"
  using mset_sort_insert [of cmp a xs] by (metis set_mset_add_mset_insert set_mset_mset)

lemma sorted_sort_insert:
  fixes key :: "'a \<Rightarrow> int"
  assumes "sorted_wrt (\<lambda>a b. key b \<le> key a) xs"
  shows "sorted_wrt (\<lambda>a b. key b \<le> key a) (sort_insert (\<lambda>a b. key b - key a) x xs)"
  using assms
proof (induction xs)
  case Nil
  show ?case by simp
next
  case (Cons y ys)
  show ?case
  proof (cases "key y \<le> key x")
    case True
    with Cons.prems show ?thesis by auto
  next
    case False
    with Cons show ?thesis by (auto simp: set_sort_insert)
  qed
qed

lemma sorted_sort_cmp:
  fixes key :: "'a \<Rightarrow> int"
  shows "sorted_wrt (\<lambda>a b. key b \<le> key a) (sort_cmp (\<lambda>a b. key b - key a) xs)"
  unfolding sort_cmp_def by (induction xs) (simp_all add: sorted_sort_insert)

section \<open>Merging the response onto the roster\<close>

lemma find_id_rk:
  "find (\<lambda>r. id_rk r = k) rankedData = Some ranking \<Longrightarrow> id_rk ranking = k"
  by (induction rankedData) (auto split: if_splits)

lemma find_None_id_rk:
  "k \<notin> id_rk ` set rankedData \<Longrightarrow> find (\<lambda>r. id_rk r = k) rankedData = None"
  by (induction rankedData) auto

lemma find_first_id_rk:
  "id_rk r = k \<Longrightarrow> \<forall>p \<in> set pre. id_rk p \<noteq> k \<Longrightarrow>
   find (\<lambda>r. id_rk r = k) (pre @ r # post) = Some r"
  by (induction pre) auto

lemma find_in_set: "find P xs = Some x \<Longrightarrow> x \<in> set xs"
  by (induction xs) (auto split: if_splits)

lemma mergeRanking_unmatched:
  "id_emp emp \<notin> id_rk ` set rankedData \<Longrightarrow>
   mergeRanking rankedData emp =
     \<lparr>id_emp = id_emp emp, name = name emp, summary = summary emp, skills = skills emp,
      experienceYears = experienceYears emp, rank = 0, justification = ''Not ranked''\<rparr>"
  by (simp add: mergeRanking_def find_None_id_rk)

lemma mergeRanking_first_match:
  assumes "id_rk r = id_emp emp" and "\<forall>p \<in> set pre. id_rk p \<noteq> id_emp emp"
  shows "mergeRanking (pre @ r # post) emp =
     \<lparr>id_emp = id_emp emp,
      name = (case name_rk r of None \<Rightarrow> name emp | Some v \<Rightarrow> v),
      summary = (case summary_rk r of None \<Rightarrow> summary emp | Some v \<Rightarrow> v),
      skills = (case skills_rk r of None \<Rightarrow> skills emp | Some v \<Rightarrow> v),
      experienceYears =
        (case experienceYears_rk r of None \<Rightarrow> experienceYears emp | Some v \<Rightarrow> v),
      rank = rank_rk r, justification = justification_rk r\<rparr>"
  using assms by (simp add: mergeRanking_def find_first_id_rk)

lemma id_emp_mergeRanking: "id_emp (mergeRanking rankedData emp) = id_emp emp"
  by (auto simp: mergeRanking_def split: option.splits dest: find_id_rk)

lemma truncate_mergeRanking:
  assumes "\<forall>r \<in> set rankedData. id_rk r = id_emp emp \<longrightarrow> schema_keys_only r"
  shows "AnalyzedEmployee.truncate (mergeRanking rankedData emp) = emp"
proof (cases "find (\<lambda>r. id_rk r = id_emp emp) rankedData")
  case None
  then show ?thesis
    by (simp add: mergeRanking_def AnalyzedEmployee.truncate_def)
next
  case (Some r)
  then have "r \<in> set rankedData" and "id_rk r = id_emp emp"
    by (auto dest: find_in_set find_id_rk)
  with assms have "schema_keys_only r" by blast
  with Some \<open>id_rk r = id_emp emp\<close> show ?thesis
    by (simp add: mergeRanking_def AnalyzedEmployee.truncate_def schema_keys_only_def)
qed

lemma rankEmployees_Parsed:
  "rankEmployees roster (Parsed rankedData) =
     Inr (sort_cmp (\<lambda>a b. rank b - rank a) (map (mergeRanking rankedData) roster))"
  by (simp add: rankEmployees_def)

lemma set_rankEmployees:
  "rankEmployees roster (Parsed rankedData) = Inr out \<Longrightarrow>
   set out = mergeRanking rankedData ` set roster"
  by (auto simp: rankEmployees_Parsed set_sort_cmp)

section \<open>Claims about \<open>rankEmployees\<close>\<close>

text \<open>
  C1. For every roster and every ranking response array, a roster entry whose id does not
  occur in the response is ranked without failure: \<open>rankEmployees\<close> returns a list, the
  entry with rank 0 and justification \<open>Not ranked\<close> for that employee is in it, and every
  returned entry with that id has rank 0 and justification exactly \<open>Not ranked\<close>.
\<close>

theorem C1_unmatched_gets_default:
  assumes "emp \<in> set roster" and "id_emp emp \<notin> id_rk ` set rankedData"
  shows "\<exists>out. rankEmployees roster (Parsed rankedData) = Inr out \<and>
           \<lparr>id_emp = id_emp emp, name = name emp, summary = summary emp, skills = skills emp,
            experienceYears = experienceYears emp, rank = 0, justification = ''Not ranked''\<rparr>
             \<in> set out \<and>
           (\<forall>e \<in> set out. id_emp e = id_emp emp \<longrightarrow>
              rank e = 0 \<and> justification e = ''Not ranked'')"
proof -
  obtain out where out: "rankEmployees roster (Parsed rankedData) = Inr out"
    by (simp add: rankEmployees_Parsed)
  then have set_out: "set out = mergeRanking rankedData ` set roster"
    by (rule set_rankEmployees)
  have dflt: "mergeRanking rankedData e =
      \<lparr>id_emp = id_emp e, name = name e, summary = summary e, skills = skills e,
       experienceYears = experienceYears e, rank = 0, justification = ''Not ranked''\<rparr>"
    if "id_emp e = id_emp emp" for e
  proof -
    from that assms(2) have "id_emp e \<notin> id_rk ` set rankedData" by simp
    then show ?thesis by (rule mergeRanking_unmatched)
  qed
  have "mergeRanking rankedData emp \<in> set out"
    using assms(1) set_out by blast
  then have here: "\<lparr>id_emp = id_emp emp, name = name emp, summary = summary emp,
      skills = skills emp, experienceYears = experienceYears emp, rank = 0,
      justification = ''Not ranked''\<rparr> \<in> set out"
    using dflt [of emp] by simp
  have all: "rank e = 0 \<and> justification e = ''Not ranked''"
    if "e \<in> set out" and "id_emp e = id_emp emp" for e
  proof -
    from that(1) set_out obtain e0 where e0: "e = mergeRanking rankedData e0" by blast
    with that(2) have "id_emp e0 = id_emp emp" by (simp add: id_emp_mergeRanking)
    then have "e = \<lparr>id_emp = id_emp e0, name = name e0, summary = summary e0,
      skills = skills e0, experienceYears = experienceYears e0, rank = 0,
      justification = ''Not ranked''\<rparr>"
      using e0 dflt [of e0] by simp
    then show ?thesis by simp
  qed
  from out here all show ?thesis by blast
qed

theorem C1_witness:
  "bo \<in> set [al, bo] \<and> id_emp bo \<notin> id_rk ` set [strong] \<and>
   (\<exists>out. rankEmployees [al, bo] (Parsed [strong]) = Inr out \<and>
      \<lparr>id_emp = ''b'', name = ''Bo'', summary = ''Designer'', skills = [''Figma''],
       experienceYears = 2, rank = 0, justification = ''Not ranked''\<rparr> \<in> set out)"
proof -
  have m: "bo \<in> set [al, bo]" by simp
  have u: "id_emp bo \<notin> id_rk ` set [strong]"
    by (simp add: bo_def strong_def)
  from C1_unmatched_gets_default [OF m u]
  obtain out where out: "rankEmployees [al, bo] (Parsed [strong]) = Inr out"
    and here: "\<lparr>id_emp = id_emp bo, name = name bo, summary = summary bo, skills = skills bo,
            experienceYears = experienceYears bo, rank = 0, justification = ''Not ranked''\<rparr>
             \<in> set out"
    by blast
  from here have "\<lparr>id_emp = ''b'', name = ''Bo'', summary = ''Designer'', skills = [''Figma''],
       experienceYears = 2, rank = 0, justification = ''Not ranked''\<rparr> \<in> set out"
    by (simp add: bo_def)
  with m u out show ?thesis by blast
qed

text \<open>
  C2. For every roster and every ranking response array, in whatever order its entries
  come, the list returned by \<open>rankEmployees\<close> is sorted non-increasing by rank.
\<close>

theorem C2_sorted_by_rank_descending:
  "\<exists>out. rankEmployees roster (Parsed rankedData) = Inr out \<and>
         sorted_wrt (\<lambda>a b. rank b \<le> rank a) out"
  by (simp add: rankEmployees_Parsed sorted_sort_cmp)

theorem C2_witness:
  "\<exists>out. rankEmployees [bo, al] (Parsed [strong]) = Inr out \<and>
         sorted_wrt (\<lambda>a b. rank b \<le> rank a) out"
  using C2_sorted_by_rank_descending [of "[bo, al]" "[strong]"] .

text \<open>
  C3. For every roster and every ranking response array, the list returned by
  \<open>rankEmployees\<close> has the length of the roster, every returned entry has the id of a
  roster entry, and the returned entries are the roster entries merged with the response
  (as a multiset). The merge is by id and takes the first match: when \<open>r\<close> is the first
  entry of the response whose id is that of \<open>emp\<close>, the entry for \<open>emp\<close> has that id and
  carries the rank and the justification of \<open>r\<close>; when \<open>r\<close> has the keys of the schema
  only, the entry is \<open>emp\<close> with that rank and justification.
\<close>

theorem C3_same_length_ids_first_match:
  "\<exists>out. rankEmployees roster (Parsed rankedData) = Inr out \<and>
         length out = length roster \<and>
         (\<forall>e \<in> set out. id_emp e \<in> id_emp ` set roster) \<and>
         mset out = mset (map (mergeRanking rankedData) roster) \<and>
         (\<forall>emp pre r post.
            rankedData = pre @ r # post \<and> id_rk r = id_emp emp \<and>
            (\<forall>p \<in> set pre. id_rk p \<noteq> id_emp emp) \<longrightarrow>
            id_emp (mergeRanking rankedData emp) = id_emp emp \<and>
            rank (mergeRanking rankedData emp) = rank_rk r \<and>
            justification (mergeRanking rankedData emp) = justification_rk r \<and>
            (schema_keys_only r \<longrightarrow>
               mergeRanking rankedData emp =
                 \<lparr>id_emp = id_emp emp, name = name emp, summary = summary emp,
                  skills = skills emp, experienceYears = experienceYears emp,
                  rank = rank_rk r, justification = justification_rk r\<rparr>))"
proof -
  obtain out where out: "rankEmployees roster (Parsed rankedData) = Inr out"
    by (simp add: rankEmployees_Parsed)
  then have eq: "out = sort_cmp (\<lambda>a b. rank b - rank a) (map (mergeRanking rankedData) roster)"
    by (simp add: rankEmployees_Parsed)
  have len: "length out = length roster"
    by (simp add: eq length_sort_cmp)
  have ids: "\<forall>e \<in> set out. id_emp e \<in> id_emp ` set roster"
    using set_rankEmployees [OF out] by (auto simp: id_emp_mergeRanking)
  have perm: "mset out = mset (map (mergeRanking rankedData) roster)"
    by (simp only: eq mset_sort_cmp)
  have first: "id_emp (mergeRanking rankedData emp) = id_emp emp \<and>
      rank (mergeRanking rankedData emp) = rank_rk r \<and>
      justification (mergeRanking rankedData emp) = justification_rk r \<and>
      (schema_keys_only r \<longrightarrow>
         mergeRanking rankedData emp =
           \<lparr>id_emp = id_emp emp, name = name emp, summary = summary emp,
            skills = skills emp, experienceYears = experienceYears emp,
            rank = rank_rk r, justification = justification_rk r\<rparr>)"
    if "rankedData = pre @ r # post" and "id_rk r = id_emp emp"
      and "\<forall>p \<in> set pre. id_rk p \<noteq> id_emp emp" for emp pre r post
    unfolding that(1) mergeRanking_first_match [OF that(2,3), of post]
    by (simp add: schema_keys_only_def)
  from out len ids perm first show ?thesis by blast
qed

theorem C3_witness:
  "\<exists>out. rankEmployees [bo, al] (Parsed [strong, weak]) = Inr out \<and>
         length out = 2 \<and>
         (\<forall>e \<in> set out. id_emp e = ''a'' \<or> id_emp e = ''b'') \<and>
         mergeRanking [strong, weak] al =
           \<lparr>id_emp = ''a'', name = ''Al'', summary = ''Backend engineer'', skills = [''Go''],
            experienceYears = 5, rank = 80, justification = ''Strong''\<rparr>"
proof -
  from C3_same_length_ids_first_match [of "[bo, al]" "[strong, weak]"]
  obtain out where out: "rankEmployees [bo, al] (Parsed [strong, weak]) = Inr out"
    and len: "length out = length [bo, al]"
    and ids: "\<forall>e \<in> set out. id_emp e \<in> id_emp ` set [bo, al]"
    and first: "\<forall>emp pre r post.
            [strong, weak] = pre @ r # post \<and> id_rk r = id_emp emp \<and>
            (\<forall>p \<in> set pre. id_rk p \<noteq> id_emp emp) \<longrightarrow>
            id_emp (mergeRanking [strong, weak] emp) = id_emp emp \<and>
            rank (mergeRanking [strong, weak] emp) = rank_rk r \<and>
            justification (mergeRanking [strong, weak] emp) = justification_rk r \<and>
            (schema_keys_only r \<longrightarrow>
               mergeRanking [strong, weak] emp =
                 \<lparr>id_emp = id_emp emp, name = name emp, summary = summary emp,
                  skills = skills emp, experienceYears = experienceYears emp,
                  rank = rank_rk r, justification = justification_rk r\<rparr>)"
    by blast
  have "mergeRanking [strong, weak] al =
      \<lparr>id_emp = id_emp al, name = name al, summary = summary al,
       skills = skills al, experienceYears = experienceYears al,
       rank = rank_rk strong, justification = justification_rk strong\<rparr>"
    using first [rule_format, of "[]" strong "[weak]" al]
    by (simp add: al_def strong_def schema_keys_only_def)
  then have m: "mergeRanking [strong, weak] al =
      \<lparr>id_emp = ''a'', name = ''Al'', summary = ''Backend engineer'', skills = [''Go''],
       experienceYears = 5, rank = 80, justification = ''Strong''\<rparr>"
    by (simp add: al_def strong_def)
  from ids have "\<forall>e \<in> set out. id_emp e = ''a'' \<or> id_emp e = ''b''"
    by (auto simp: al_def bo_def)
  with out len m show ?thesis by simp
qed

text \<open>
  C9. For every roster and every ranking response array, every returned entry is the
  merge of a roster entry and has its \<open>id\<close>: the response cannot replace the id, since a
  matched response entry has the id of the roster entry. It has the \<open>name\<close>, \<open>summary\<close>,
  \<open>skills\<close> and \<open>experienceYears\<close> of the roster entry as well when no response entry
  with that id carries one of these keys (so for every unmatched entry); when all
  response entries have the keys of the schema only, the returned entries with their
  \<open>rank\<close> and \<open>justification\<close> taken away are the roster entries again (as a multiset).
  A key \<open>name\<close>, \<open>summary\<close>, \<open>skills\<close> or \<open>experienceYears\<close> of the first response entry
  with the id replaces the value of the roster entry.
\<close>

theorem C9_roster_fields_kept_unless_overwritten:
  "\<exists>out. rankEmployees roster (Parsed rankedData) = Inr out \<and>
         mset (map id_emp out) = mset (map id_emp roster) \<and>
         (\<forall>e \<in> set out. \<exists>emp \<in> set roster.
            e = mergeRanking rankedData emp \<and> id_emp e = id_emp emp \<and>
            ((\<forall>r \<in> set rankedData. id_rk r = id_emp emp \<longrightarrow> schema_keys_only r) \<longrightarrow>
               name e = name emp \<and> summary e = summary emp \<and>
               skills e = skills emp \<and> experienceYears e = experienceYears emp)) \<and>
         ((\<forall>r \<in> set rankedData. schema_keys_only r) \<longrightarrow>
            mset (map AnalyzedEmployee.truncate out) = mset roster) \<and>
         (\<forall>emp pre r post.
            rankedData = pre @ r # post \<and> id_rk r = id_emp emp \<and>
            (\<forall>p \<in> set pre. id_rk p \<noteq> id_emp emp) \<longrightarrow>
            name (mergeRanking rankedData emp) =
              (case name_rk r of None \<Rightarrow> name emp | Some v \<Rightarrow> v) \<and>
            summary (mergeRanking rankedData emp) =
              (case summary_rk r of None \<Rightarrow> summary emp | Some v \<Rightarrow> v) \<and>
            skills (mergeRanking rankedData emp) =
              (case skills_rk r of None \<Rightarrow> skills emp | Some v \<Rightarrow> v) \<and>
            experienceYears (mergeRanking rankedData emp) =
              (case experienceYears_rk r of None \<Rightarrow> experienceYears emp | Some v \<Rightarrow> v))"
proof -
  obtain out where out: "rankEmployees roster (Parsed rankedData) = Inr out"
    by (simp add: rankEmployees_Parsed)
  then have eq: "out = sort_cmp (\<lambda>a b. rank b - rank a) (map (mergeRanking rankedData) roster)"
    by (simp add: rankEmployees_Parsed)
  have "mset (map id_emp out) = image_mset id_emp (mset (map (mergeRanking rankedData) roster))"
    by (simp only: eq mset_map mset_sort_cmp)
  also have "\<dots> = mset (map (\<lambda>emp. id_emp (mergeRanking rankedData emp)) roster)"
    by (simp add: multiset.map_comp comp_def)
  also have "\<dots> = mset (map id_emp roster)"
    by (simp add: id_emp_mergeRanking)
  finally have ids: "mset (map id_emp out) = mset (map id_emp roster)" .
  have fields: "\<exists>emp \<in> set roster.
      e = mergeRanking rankedData emp \<and> id_emp e = id_emp emp \<and>
      ((\<forall>r \<in> set rankedData. id_rk r = id_emp emp \<longrightarrow> schema_keys_only r) \<longrightarrow>
         name e = name emp \<and> summary e = summary emp \<and>
         skills e = skills emp \<and> experienceYears e = experienceYears emp)"
    if "e \<in> set out" for e
  proof -
    from that set_rankEmployees [OF out] obtain emp
      where emp: "emp \<in> set roster" "e = mergeRanking rankedData emp" by blast
    have "name e = name emp \<and> summary e = summary emp \<and>
        skills e = skills emp \<and> experienceYears e = experienceYears emp"
      if "\<forall>r \<in> set rankedData. id_rk r = id_emp emp \<longrightarrow> schema_keys_only r"
    proof -
      have "AnalyzedEmployee.truncate e = emp"
        unfolding emp(2) using that by (rule truncate_mergeRanking)
      then show ?thesis by (auto simp: AnalyzedEmployee.truncate_def)
    qed
    with emp show ?thesis by (auto simp: id_emp_mergeRanking)
  qed
  have perm: "mset (map AnalyzedEmployee.truncate out) = mset roster"
    if plain: "\<forall>r \<in> set rankedData. schema_keys_only r"
  proof -
    have "mset (map AnalyzedEmployee.truncate out) =
        image_mset AnalyzedEmployee.truncate (mset (map (mergeRanking rankedData) roster))"
      by (simp only: eq mset_map mset_sort_cmp)
    also have "\<dots> =
        mset (map (\<lambda>emp. AnalyzedEmployee.truncate (mergeRanking rankedData emp)) roster)"
      by (simp add: multiset.map_comp comp_def)
    also have "\<dots> = mset roster"
      using plain by (simp add: truncate_mergeRanking)
    finally show ?thesis .
  qed
  have over: "name (mergeRanking rankedData emp) =
        (case name_rk r of None \<Rightarrow> name emp | Some v \<Rightarrow> v) \<and>
      summary (mergeRanking rankedData emp) =
        (case summary_rk r of None \<Rightarrow> summary emp | Some v \<Rightarrow> v) \<and>
      skills (mergeRanking rankedData emp) =
        (case skills_rk r of None \<Rightarrow> skills emp | Some v \<Rightarrow> v) \<and>
      experienceYears (mergeRanking rankedData emp) =
        (case experienceYears_rk r of None \<Rightarrow> experienceYears emp | Some v \<Rightarrow> v)"
    if "rankedData = pre @ r # post" and "id_rk r = id_emp emp"
      and "\<forall>p \<in> set pre. id_rk p \<noteq> id_emp emp" for emp pre r post
    unfolding that(1) mergeRanking_first_match [OF that(2,3), of post] by simp
  from out ids fields perm over show ?thesis by blast
qed

theorem C9_witness:
  "schema_keys_only strong \<and>
   (\<exists>out. rankEmployees [bo, al] (Parsed [strong]) = Inr out \<and>
      mset (map AnalyzedEmployee.truncate out) = mset [bo, al])"
proof -
  have plain: "\<forall>r \<in> set [strong]. schema_keys_only r"
    by (simp add: strong_def schema_keys_only_def)
  have "\<exists>out. rankEmployees [bo, al] (Parsed [strong]) = Inr out \<and>
      ((\<forall>r \<in> set [strong]. schema_keys_only r) \<longrightarrow>
         mset (map AnalyzedEmployee.truncate out) = mset [bo, al])"
    using C9_roster_fields_kept_unless_overwritten [of "[bo, al]" "[strong]"]
    apply -
    apply (elim exE conjE)
    apply (intro exI conjI)
     apply assumption+
    done
  with plain show ?thesis by simp
qed

text \<open>
  As a statement about every response array it fails: the spread writes every key of the
  response entry, so an entry that carries \<open>name\<close> replaces the name of the roster entry.
\<close>

theorem C9_counterexample:
  "rankEmployees [al] (Parsed [renamed]) =
     Inr [\<lparr>id_emp = ''a'', name = ''Alan'', summary = ''Backend engineer'', skills = [''Go''],
           experienceYears = 5, rank = 80, justification = ''Strong''\<rparr>] \<and>
   name al = ''Al'' \<and> ''Alan'' \<noteq> name al"
  by (simp add: rankEmployees_def sort_cmp_def mergeRanking_def al_def renamed_def)

section \<open>Lines and white space\<close>

lemma split_not_Nil: "split t sep \<noteq> []"
  by (induction t) (auto split: list.splits)

lemma split_no_sep: "p \<in> set (split t sep) \<Longrightarrow> sep \<notin> set p"
proof (induction t arbitrary: p)
  case Nil
  then show ?case by simp
next
  case (Cons c cs)
  show ?case
  proof (cases "c = sep")
    case True
    with Cons show ?thesis by auto
  next
    case False
    obtain q qs where q: "split cs sep = q # qs"
      using split_not_Nil [of cs sep] by (cases "split cs sep") auto
    with False Cons.prems have "p = c # q \<or> p \<in> set qs" by auto
    then show ?thesis
    proof
      assume "p = c # q"
      moreover have "sep \<notin> set q" using Cons.IH [of q] q by simp
      ultimately show ?thesis using False by auto
    next
      assume "p \<in> set qs"
      then show ?thesis using Cons.IH [of p] q by simp
    qed
  qed
qed

lemma join_Cons: "ps \<noteq> [] \<Longrightarrow> join sep (p # ps) = p @ sep # join sep ps"
  by (cases ps) simp_all

lemma join_Cons_Cons: "join sep ((c # p) # ps) = c # join sep (p # ps)"
  by (cases ps) simp_all

lemma join_split: "join sep (split t sep) = t"
proof (induction t)
  case Nil
  show ?case by simp
next
  case (Cons c cs)
  obtain q qs where q: "split cs sep = q # qs"
    using split_not_Nil [of cs sep] by (cases "split cs sep") auto
  show ?case
  proof (cases "c = sep")
    case True
    then show ?thesis using Cons.IH by (simp add: join_Cons split_not_Nil)
  next
    case False
    then show ?thesis using Cons.IH q by (simp add: join_Cons_Cons)
  qed
qed

lemma trim_Nil_iff: "trim t = [] \<longleftrightarrow> whitespace_only t"
proof
  assume "trim t = []"
  then have "\<forall>c \<in> set (dropWhile isWhiteSpace t). isWhiteSpace c"
    by (simp add: trim_def dropWhile_eq_Nil_conv)
  then have "dropWhile isWhiteSpace t = []"
    by (metis hd_dropWhile list.set_sel(1))
  then show "whitespace_only t"
    by (simp add: whitespace_only_def dropWhile_eq_Nil_conv list_all_iff)
next
  assume "whitespace_only t"
  then have "dropWhile isWhiteSpace t = []"
    by (simp add: whitespace_only_def dropWhile_eq_Nil_conv list_all_iff)
  then show "trim t = []" by (simp only: trim_def rev.simps dropWhile.simps)
qed

section \<open>Claims about the application state\<close>

text \<open>
  C4. If the ranking operation fails (the request is rejected or the response text is not
  JSON), \<open>rankEmployees\<close> raises the error \<open>RankingFailed\<close>, and \<open>handleRankEmployees\<close>
  leaves the stored ranked roster (and the roster and the assignments) as they were and
  stores the message of the error. For every reply, the ranked roster after the handler is
  the one before it or the whole result of \<open>rankEmployees\<close>: no partial result is stored.
\<close>

theorem C4_failure_leaves_ranking_untouched:
  "(reply = Rejected \<or> reply = Unparsable \<longrightarrow>
      rankEmployees roster reply = Inl RankingFailed \<and>
      rankedEmployees (fst (handleRankEmployees reply s)) = rankedEmployees s \<and>
      employees (fst (handleRankEmployees reply s)) = employees s \<and>
      assignments (fst (handleRankEmployees reply s)) = assignments s \<and>
      (employees s \<noteq> [] \<longrightarrow> error (fst (handleRankEmployees reply s)) = Some RankingFailed)) \<and>
   (rankedEmployees (fst (handleRankEmployees reply s)) = rankedEmployees s \<or>
      rankEmployees (employees s) reply = Inr (rankedEmployees (fst (handleRankEmployees reply s))))"
  by (cases reply) (simp_all add: handleRankEmployees_def rankEmployees_def RankingFailed_def Let_def)

theorem C4_witness:
  "rankEmployees [al, bo] Unparsable = Inl ''Failed to rank employees with Gemini API.'' \<and>
   rankedEmployees (fst (handleRankEmployees Unparsable ranked_assigned)) = [ranked_al] \<and>
   error (fst (handleRankEmployees Unparsable ranked_assigned)) =
     Some ''Failed to rank employees with Gemini API.''"
  using C4_failure_leaves_ranking_untouched [of Unparsable "[al, bo]" ranked_assigned]
  by (simp add: ranked_assigned_def RankingFailed_def)

text \<open>
  C5. In every state, and so in every state that holds a ranking and task assignments,
  \<open>handleAddEmployee\<close> appends the new employee to the roster and sets the ranked roster
  and the task assignments to empty; the busy flags and the error stay.
\<close>

theorem C5_add_employee_resets_results:
  "employees (handleAddEmployee employee s) = employees s @ [employee] \<and>
   rankedEmployees (handleAddEmployee employee s) = [] \<and>
   assignments (handleAddEmployee employee s) = [] \<and>
   isRanking (handleAddEmployee employee s) = isRanking s \<and>
   isDistributing (handleAddEmployee employee s) = isDistributing s \<and>
   error (handleAddEmployee employee s) = error s"
  by (simp add: handleAddEmployee_def)

theorem C5_witness:
  "rankedEmployees ranked_assigned \<noteq> [] \<and> assignments ranked_assigned \<noteq> [] \<and>
   employees (handleAddEmployee bo ranked_assigned) = [al, bo] \<and>
   rankedEmployees (handleAddEmployee bo ranked_assigned) = [] \<and>
   assignments (handleAddEmployee bo ranked_assigned) = []"
  using C5_add_employee_resets_results [of bo ranked_assigned]
  by (simp add: ranked_assigned_def)

text \<open>
  C6. For every uploaded file whose MIME type is not \<open>application/pdf\<close>, the upload is
  rejected: \<open>handleFileChange\<close> clears the file selection and the value of the file input,
  leaves the other fields of the form, and calls \<open>onError\<close> exactly once, with the
  \<open>InvalidUpload\<close> message; in the application only the error cell changes (one timer is
  started), so the roster stays.
\<close>

theorem C6_non_pdf_upload_rejected:
  assumes "type_file file \<noteq> ''application/pdf''"
  shows "handleFileChange (Some (file # rest)) form =
           (form\<lparr>resumeFile := None, value_input := ''''\<rparr>, [InvalidUpload]) \<and>
         onChange_resume_upload (Some (file # rest)) (s, form) =
           (s\<lparr>error := Some InvalidUpload\<rparr>,
            form\<lparr>resumeFile := None, value_input := ''''\<rparr>, [7000]) \<and>
         employees (fst (onChange_resume_upload (Some (file # rest)) (s, form))) = employees s \<and>
         name_form (fst (snd (onChange_resume_upload (Some (file # rest)) (s, form)))) =
           name_form form \<and>
         resumeFile (fst (snd (onChange_resume_upload (Some (file # rest)) (s, form)))) = None"
  using assms
  by (simp add: handleFileChange_def onChange_resume_upload_def handleSetError_def
      InvalidUpload_def)

theorem C6_witness:
  "type_file notes_txt \<noteq> ''application/pdf'' \<and>
   handleFileChange (Some [notes_txt]) filled_form =
     (\<lparr>name_form = ''Bo'', resumeFile = None, isAnalyzing = False, value_input = ''''\<rparr>,
      [''Please upload a valid PDF file.''])"
  using C6_non_pdf_upload_rejected [of notes_txt "[]" filled_form ranked_assigned]
  by (simp add: notes_txt_def filled_form_def InvalidUpload_def)

text \<open>
  C10. For every task text, the lines that \<open>handleDistributeTasks\<close> works on are the
  pieces of the text between newlines (joined with newlines they give the text, and none
  holds a newline), without the lines that hold only white space. If no line is left, or
  the ranked roster is empty, no request is made and the state (assignments, error and
  busy flag included) is returned unchanged; otherwise the request carries the ranked
  roster and these lines.
\<close>

theorem C10_distribute_guard:
  "join 0x000A (split tasksText 0x000A) = tasksText \<and>
   (\<forall>l \<in> set (split tasksText 0x000A). 0x000A \<notin> set l) \<and>
   (filter (\<lambda>l. \<not> whitespace_only l) (split tasksText 0x000A) = [] \<or> rankedEmployees s = [] \<longrightarrow>
      handleDistributeTasks tasksText reply s = (s, None)) \<and>
   (filter (\<lambda>l. \<not> whitespace_only l) (split tasksText 0x000A) \<noteq> [] \<and> rankedEmployees s \<noteq> [] \<longrightarrow>
      snd (handleDistributeTasks tasksText reply s) =
        Some (rankedEmployees s, filter (\<lambda>l. \<not> whitespace_only l) (split tasksText 0x000A)))"
proof -
  let ?taskList = "filter (\<lambda>l. \<not> whitespace_only l) (split tasksText 0x000A)"
  have tl: "filter (\<lambda>t. trim t \<noteq> []) (split tasksText 0x000A) = ?taskList"
    by (simp add: trim_Nil_iff)
  have a: "join 0x000A (split tasksText 0x000A) = tasksText"
    by (simp add: join_split)
  have b: "\<forall>l \<in> set (split tasksText 0x000A). 0x000A \<notin> set l"
    by (simp add: split_no_sep)
  have c: "handleDistributeTasks tasksText reply s = (s, None)"
    if "?taskList = [] \<or> rankedEmployees s = []"
    using that by (auto simp: handleDistributeTasks_def tl)
  have d: "snd (handleDistributeTasks tasksText reply s) = Some (rankedEmployees s, ?taskList)"
    if "?taskList \<noteq> [] \<and> rankedEmployees s \<noteq> []"
    using that by (simp add: handleDistributeTasks_def tl Let_def)
  from a b c d show ?thesis by blast
qed

theorem C10_witness:
  "handleDistributeTasks [0x0020, 0x000A, 0x0009] Rejected ranked_assigned =
     (ranked_assigned, None) \<and>
   snd (handleDistributeTasks [0x0041, 0x000A, 0x2003, 0x000A, 0x0042] Rejected ranked_assigned) =
     Some ([ranked_al], [[0x0041], [0x0042]])"
  using C10_distribute_guard [of "[0x0020, 0x000A, 0x0009]" ranked_assigned Rejected]
    C10_distribute_guard [of "[0x0041, 0x000A, 0x2003, 0x000A, 0x0042]" ranked_assigned Rejected]
  by (simp add: whitespace_only_def isWhiteSpace_def ranked_assigned_def)

section \<open>Claims about the PDF renderer\<close>


lemma processPdfToImages_loaded:
  assumes "pdfjsLib env = Some lib" and "readAsArrayBuffer file = OnLoad (Some bytes)"
  shows "processPdfToImages env file =
     (case renderDocument env lib bytes of
        Inr images \<Rightarrow> Inr images
      | Inl e \<Rightarrow> if isPasswordException e then Inl UnsupportedDocument else Inl CorruptDocument)"
  using assms
  by (simp add: processPdfToImages_def UnsupportedDocument_def CorruptDocument_def
      split: sum.splits)


lemma split_header_payload:
  "sep \<notin> set h \<Longrightarrow> sep \<notin> set p \<Longrightarrow> index (split (h @ sep # p) sep) 1 = Some p"
proof (induction h)
  case Nil
  have "split p sep = [p]" using Nil(2)
    by (induction p) auto
  then show ?case by (simp add: index_def)
next
  case (Cons c h)
  then have "index (split (h @ sep # p) sep) 1 = Some p" by simp
  then show ?case using Cons.prems
    by (auto simp: index_def split: list.splits if_splits)
qed

lemma renderPageToImage_ok:
  assumes "getContext env ''2d''" and "render page (getViewport page (3 / 2)) = Inr canvas"
  shows "renderPageToImage env page =
     Inr \<lparr>mimeType = ''image/jpeg'',
          data = index (split (toDataURL env canvas ''image/jpeg'') CHR '','') 1\<rparr>"
  using assms by (simp add: renderPageToImage_def)

lemma pageLoop_ok:
  assumes ctx: "getContext env ''2d''"
    and pages: "\<forall>k. 1 \<le> k \<and> k \<le> numPages pdf \<longrightarrow>
      getPage pdf k = Inr (pages k) \<and>
      render (pages k) (getViewport (pages k) (3 / 2)) = Inr (rasters k)"
  shows "1 \<le> i \<Longrightarrow> i \<le> Suc (numPages pdf) \<Longrightarrow>
     pageLoop env pdf i images =
       Inr (images @ map (\<lambda>k. \<lparr>mimeType = ''image/jpeg'',
              data = index (split (toDataURL env (rasters k) ''image/jpeg'') CHR '','') 1\<rparr>)
            [i..<Suc (numPages pdf)])"
proof (induction "Suc (numPages pdf) - i" arbitrary: i images)
  case 0
  then have "\<not> i \<le> numPages pdf" by simp
  moreover from 0 have "[i..<Suc (numPages pdf)] = []" by simp
  ultimately show ?case by (simp add: pageLoop.simps [of env pdf i images])
next
  case (Suc n)
  then have le: "i \<le> numPages pdf" by simp
  with Suc.prems pages have p: "getPage pdf i = Inr (pages i)"
    and r: "render (pages i) (getViewport (pages i) (3 / 2)) = Inr (rasters i)"
    by auto
  have step: "pageLoop env pdf i images =
      pageLoop env pdf (Suc i) (images @ [\<lparr>mimeType = ''image/jpeg'',
         data = index (split (toDataURL env (rasters i) ''image/jpeg'') CHR '','') 1\<rparr>])"
    using le p renderPageToImage_ok [OF ctx r]
    by (simp add: pageLoop.simps [of env pdf i images])
  have "n = Suc (numPages pdf) - Suc i" using Suc.hyps(2) by simp
  from Suc.hyps(1) [OF this] le
  have rest: "pageLoop env pdf (Suc i) imgs =
       Inr (imgs @ map (\<lambda>k. \<lparr>mimeType = ''image/jpeg'',
              data = index (split (toDataURL env (rasters k) ''image/jpeg'') CHR '','') 1\<rparr>)
            [Suc i..<Suc (numPages pdf)])" for imgs
    by simp
  have "[i..<Suc (numPages pdf)] = i # [Suc i..<Suc (numPages pdf)]"
    using le by (simp add: upt_conv_Cons)
  then show ?case by (simp add: step rest)
qed




text \<open>
  C8. When the library is loaded, the \<open>FileReader\<close> delivers the bytes of the file and the
  canvas gives a 2D context: for every structurally valid, non-encrypted PDF with \<open>N\<close>
  pages (pdf.js opens the bytes as a document of \<open>N\<close> pages, each of which loads and
  renders at scale 1.5) the renderer returns exactly \<open>N\<close> images, the \<open>i\<close>-th made from
  page \<open>i\<close> (from 1): its MIME type is \<open>image/jpeg\<close> and its data is what follows the comma
  in the JPEG data URL of the canvas on which the page was rendered at scale 1.5.
\<close>

theorem C8_one_image_per_page:
  assumes "pdfjsLib env = Some lib" and "readAsArrayBuffer file = OnLoad (Some bytes)"
    and "getDocument lib bytes = Inr pdf" and "getContext env ''2d''"
    and "\<forall>k. 1 \<le> k \<and> k \<le> numPages pdf \<longrightarrow>
      getPage pdf k = Inr (pages k) \<and>
      render (pages k) (getViewport (pages k) (3 / 2)) = Inr (rasters k)"
  shows "\<exists>images. processPdfToImages env file = Inr images \<and>
           length images = numPages pdf \<and>
           (\<forall>i < numPages pdf.
              mimeType (images ! i) = ''image/jpeg'' \<and>
              data (images ! i) =
                index (split (toDataURL env (rasters (Suc i)) ''image/jpeg'') CHR '','') 1 \<and>
              (\<forall>header payload.
                 toDataURL env (rasters (Suc i)) ''image/jpeg'' = header @ CHR '','' # payload \<and>
                 CHR '','' \<notin> set header \<and> CHR '','' \<notin> set payload \<longrightarrow>
                 data (images ! i) = Some payload))"
proof -
  let ?img = "\<lambda>k. \<lparr>mimeType = ''image/jpeg'',
      data = index (split (toDataURL env (rasters k) ''image/jpeg'') CHR '','') 1\<rparr>"
  let ?images = "map ?img [1..<Suc (numPages pdf)]"
  have "pageLoop env pdf 1 [] = Inr ([] @ ?images)"
    using pageLoop_ok [OF assms(4,5), of 1 "[]"] by simp
  then have "renderDocument env lib bytes = Inr ?images"
    using assms(3) by (simp add: renderDocument_def)
  then have res: "processPdfToImages env file = Inr ?images"
    by (simp add: processPdfToImages_loaded [OF assms(1,2)])
  have len: "length ?images = numPages pdf" by simp
  have nth: "?images ! i = ?img (Suc i)" if "i < numPages pdf" for i
    using that by (simp add: nth_map_upt del: upt_Suc)
  have each: "mimeType (?images ! i) = ''image/jpeg'' \<and>
      data (?images ! i) =
        index (split (toDataURL env (rasters (Suc i)) ''image/jpeg'') CHR '','') 1 \<and>
      (\<forall>header payload.
         toDataURL env (rasters (Suc i)) ''image/jpeg'' = header @ CHR '','' # payload \<and>
         CHR '','' \<notin> set header \<and> CHR '','' \<notin> set payload \<longrightarrow>
         data (?images ! i) = Some payload)"
    if "i < numPages pdf" for i
    unfolding nth [OF that] by (auto simp: split_header_payload simp del: One_nat_def)
  from res len each show ?thesis by blast
qed

theorem C8_witness:
  "\<exists>images. processPdfToImages sample_browser cv_pdf = Inr images \<and> length images = 2 \<and>
     images ! 0 = \<lparr>mimeType = ''image/jpeg'', data = Some ''BAA''\<rparr> \<and>
     images ! 1 = \<lparr>mimeType = ''image/jpeg'', data = Some ''AAA''\<rparr>"
proof -
  have l: "pdfjsLib sample_browser = Some sample_lib"
    by (simp add: sample_browser_def)
  have r: "readAsArrayBuffer cv_pdf = OnLoad (Some [0x25, 0x50, 0x44, 0x46])"
    by (simp add: cv_pdf_def)
  have g: "getDocument sample_lib [0x25, 0x50, 0x44, 0x46] = Inr two_pages"
    by (simp add: sample_lib_def)
  have c: "getContext sample_browser ''2d''"
    by (simp add: sample_browser_def)
  have p: "\<forall>k. 1 \<le> k \<and> k \<le> numPages two_pages \<longrightarrow>
      getPage two_pages k = Inr (sample_page k) \<and>
      render (sample_page k) (getViewport (sample_page k) (3 / 2)) = Inr [k, 918, 1188]"
    by (simp add: two_pages_def sample_page_def)
  from C8_one_image_per_page [OF l r g c p]
  obtain images where res: "processPdfToImages sample_browser cv_pdf = Inr images"
    and len: "length images = numPages two_pages"
    and each: "\<forall>i < numPages two_pages.
              mimeType (images ! i) = ''image/jpeg'' \<and>
              data (images ! i) =
                index (split (toDataURL sample_browser [Suc i, 918, 1188] ''image/jpeg'') CHR '','') 1"
    by blast
  have n: "numPages two_pages = 2" by (simp add: two_pages_def)
  from each n have "mimeType (images ! 0) = ''image/jpeg'' \<and> data (images ! 0) = Some ''BAA''"
    by (simp add: sample_browser_def index_def)
  moreover from each n have "mimeType (images ! 1) = ''image/jpeg'' \<and> data (images ! 1) = Some ''AAA''"
    by (simp add: sample_browser_def index_def)
  ultimately show ?thesis using res len n by auto
qed

text \<open>
  Without the three conditions the statement fails. For the valid document of two pages
  the renderer gives \<open>EnvironmentUnavailable\<close> when the library has not been loaded and
  \<open>CorruptDocument\<close> when \<open>getContext('2d')\<close> returns null; and with both there, a file
  that the \<open>FileReader\<close> does not deliver gives the error of the reader and no image,
  whatever the file holds.
\<close>

theorem C8_counterexample:
  "readAsArrayBuffer cv_pdf = OnLoad (Some [0x25, 0x50, 0x44, 0x46]) \<and>
   getDocument sample_lib [0x25, 0x50, 0x44, 0x46] = Inr two_pages \<and>
   numPages two_pages = 2 \<and>
   processPdfToImages (sample_browser\<lparr>pdfjsLib := None\<rparr>) cv_pdf =
     Inl EnvironmentUnavailable \<and>
   processPdfToImages (sample_browser\<lparr>getContext := (\<lambda>kind. False)\<rparr>) cv_pdf =
     Inl CorruptDocument \<and>
   processPdfToImages sample_browser unreadable_pdf =
     Inl ''An error occurred while reading the file.'' \<and>
   processPdfToImages sample_browser resultless_pdf = Inl ''Failed to read file''"
proof -
  have "pageLoop (sample_browser\<lparr>getContext := (\<lambda>kind. False)\<rparr>) two_pages 1 [] =
      Inl (ErrorObject (Some ''Error''))"
    by (subst pageLoop.simps) (simp add: two_pages_def renderPageToImage_def)
  then have "renderDocument (sample_browser\<lparr>getContext := (\<lambda>kind. False)\<rparr>) sample_lib
      [0x25, 0x50, 0x44, 0x46] = Inl (ErrorObject (Some ''Error''))"
    by (simp add: renderDocument_def sample_lib_def)
  then have "processPdfToImages (sample_browser\<lparr>getContext := (\<lambda>kind. False)\<rparr>) cv_pdf =
      Inl CorruptDocument"
    by (simp add: processPdfToImages_def sample_browser_def cv_pdf_def isPasswordException_def
        CorruptDocument_def)
  then show ?thesis
    by (simp add: cv_pdf_def unreadable_pdf_def resultless_pdf_def sample_lib_def two_pages_def
        sample_browser_def processPdfToImages_def EnvironmentUnavailable_def)
qed

end
